theory Spec2Isabelle
  imports Main
begin

section \<open>The analyze command of the khodkar command-line tool\<close>

text \<open>
  A shallow embedding of \<^verbatim>\<open>src/cli/commands.ts\<close> (class \<^verbatim>\<open>KhodkarCLI\<close>).
  The class drives a handful of collaborators that live in other modules: the two zod
  schemas, the MCP manager, the LLM processor, the output formatter, the progress tracker
  and the console. Each fallible collaborator is a parameter of the model (a field of
  \<open>collaborators\<close>) returning either a thrown value or a result; every call the source
  makes is recorded, in order, in a trace of events, so that statements about which calls
  happen, how often and in which order are statements about that list.
\<close>

subsection \<open>Values\<close>

text \<open>
  A JavaScript number as the option parser \<^verbatim>\<open>parseInt\<close> produces it: an integer, or
  \<^verbatim>\<open>NaN\<close> when the text has no leading digits (integers too large for a double are
  left as they are). \<open>truthy\<close> is the test that the operator \<^verbatim>\<open>||\<close> applies to its
  left operand: zero and \<^verbatim>\<open>NaN\<close> fail it.
\<close>

datatype js_number = NaN | Num int

fun truthy :: "js_number \<Rightarrow> bool" where
  "truthy NaN = False"
| "truthy (Num n) = (n \<noteq> 0)"

text \<open>
  \<^verbatim>\<open>x || d\<close> for an optional number \<open>x\<close> (\<open>None\<close> is \<^verbatim>\<open>undefined\<close>).
\<close>

fun js_or :: "js_number option \<Rightarrow> js_number \<Rightarrow> js_number" where
  "js_or None d = d"
| "js_or (Some v) d = (if truthy v then v else d)"

text \<open>
  A thrown value. The classes \<^verbatim>\<open>LLMAnalysisError\<close> and \<^verbatim>\<open>MCPServerError\<close> are
  imported from \<^verbatim>\<open>../types\<close>; the source reads their \<^verbatim>\<open>message\<close> and the optional
  \<^verbatim>\<open>details.filePath\<close> and \<^verbatim>\<open>details.serverName\<close>. \<open>Error\<close> is any other
  instance of \<^verbatim>\<open>Error\<close>, \<open>Thrown\<close> a thrown value that is not one.
\<close>

datatype js_error =
    LLMAnalysisError string "string option"
  | MCPServerError string "string option"
  | Error string
  | Thrown string

text \<open>\<^verbatim>\<open>error instanceof Error ? error.message : fallback\<close>\<close>

fun message_or :: "js_error \<Rightarrow> string \<Rightarrow> string" where
  "message_or (LLMAnalysisError m d) fallback = m"
| "message_or (MCPServerError m d) fallback = m"
| "message_or (Error m) fallback = m"
| "message_or (Thrown v) fallback = fallback"

text \<open>
  The options object of the analyze command: what the option parser hands to the action
  and, after validation, the \<^verbatim>\<open>CLIOptions\<close> the command works with.
\<close>

record cli_options =
  directory :: string
  output_path :: string
  llmBaseUrl :: string
  llmApiKey :: string
  llmModel :: string
  format :: string
  verbose :: bool
  llmMaxTokens :: "js_number option"
  llmMaxSteps :: "js_number option"

text \<open>The object literal of lines 75-80: four fields and no others.\<close>

record llm_config =
  baseUrl :: string
  apiKey :: string
  model :: string
  maxSteps :: js_number

text \<open>
  Modelled from the spec: the types \<^verbatim>\<open>Tool\<close> and \<^verbatim>\<open>BusinessRule\<close> are declared
  outside this file. A tool is a name, a description, an input schema and the identifier
  of the server that owns it; a business rule has an id, a title, a description, a
  category, a priority among low, medium and high, a boolean \<open>userFacing\<close> and an ordered
  sequence of source references (a file path and an optional line range).
\<close>

record tool =
  tool_name :: string
  tool_description :: string
  tool_inputSchema :: string
  tool_server :: string

record business_rule =
  rule_id :: string
  title :: string
  description :: string
  category :: string
  priority :: string
  userFacing :: bool
  sources :: "(string \<times> (nat \<times> nat) option) list"

record summary =
  totalRules :: nat
  highPriorityRules :: nat
  userFacingRules :: nat

record analysis_result =
  analysisDate :: string
  businessRules :: "business_rule list"
  summary :: summary

subsection \<open>Effects\<close>

text \<open>
  The lines written to standard output. Several of them start with a pictograph and they
  embed counts; they are kept structured, one constructor per \<^verbatim>\<open>console.log\<close> of the
  source, in source order.
\<close>

datatype log_line =
    LogStarting
  | LogDirectory string
  | LogOutput string
  | LogFormat string
  | LogExtracted nat
  | LogComplete
  | LogSavedTo string
  | LogSummaryHeader
  | LogTotalRules nat
  | LogHighPriorityRules nat
  | LogUserFacingRules nat

datatype event =
    CLIOptionsSchemaParse cli_options
  | LLMConfigSchemaParse llm_config
  | NewLLMProcessor llm_config
  | NewProgressTracker bool bool
  | ProgressStart string
  | ProgressUpdatePhase string string
  | ProgressSucceed string
  | ConsoleLog log_line
  | ConsoleError string
  | InitializeServers
  | GetTools
  | Analyze llm_config "tool list"
  | NewOutputFormatter bool bool bool bool
  | FormatAndSave analysis_result string string
  | Cleanup
  | ShutdownServers
  | ProcessExit int

text \<open>
  The collaborators of one run. A field holds what the call does in this run: \<open>Inl\<close> a
  thrown value, \<open>Inr\<close> the value returned. \<open>isoDate\<close> is what
  \<^verbatim>\<open>new Date().toISOString()\<close> gives.
\<close>

record collaborators =
  CLIOptionsSchema_parse :: "cli_options \<Rightarrow> js_error + cli_options"
  LLMConfigSchema_parse :: "llm_config \<Rightarrow> js_error + unit"
  initializeServers :: "js_error + unit"
  getTools :: "js_error + tool list"
  analyze :: "llm_config \<Rightarrow> tool list \<Rightarrow> js_error + business_rule list"
  isoDate :: string
  formatAndSave :: "analysis_result \<Rightarrow> string \<Rightarrow> string \<Rightarrow> js_error + unit"
  cleanup :: "js_error + unit"
  shutdownServers :: "js_error + unit"

text \<open>
  A computation is its outcome and the events it produced. \<open>call\<close> is one call of a
  fallible collaborator and \<open>bind_io\<close> is sequencing: a thrown value ends the
  computation where it is thrown, with the events so far. \<open>emit\<close> is a run of calls
  that are taken to return normally: the constructors, the progress display and the
  console.
\<close>

type_synonym 'a io = "(js_error + 'a) \<times> event list"

definition call :: "event \<Rightarrow> js_error + 'a \<Rightarrow> 'a io" where
  "call ev r = (r, [ev])"

definition emit :: "event list \<Rightarrow> unit io" where
  "emit evs = (Inr (), evs)"

definition bind_io :: "'a io \<Rightarrow> ('a \<Rightarrow> 'b io) \<Rightarrow> 'b io" where
  "bind_io m f =
     (case m of
        (Inl e, tr) \<Rightarrow> (Inl e, tr)
      | (Inr a, tr) \<Rightarrow> (case f a of (r, tr') \<Rightarrow> (r, tr @ tr')))"

subsection \<open>The class KhodkarCLI\<close>

text \<open>
  \<^verbatim>\<open>setupCommands\<close>, lines 37-54: the options of the analyze command as given on the
  command line. The five required options are present (the option parser refuses the
  command otherwise, before the action runs); \<^verbatim>\<open>--format\<close> has the default
  \<^verbatim>\<open>'markdown'\<close>, \<^verbatim>\<open>--verbose\<close> the default \<^verbatim>\<open>false\<close>, and the two numeric
  options are absent or the result of \<^verbatim>\<open>parseInt\<close>.
\<close>

record analyze_args =
  arg_directory :: string
  arg_output :: string
  arg_llmBaseUrl :: string
  arg_llmApiKey :: string
  arg_llmModel :: string
  arg_format :: "string option"
  arg_verbose :: bool
  arg_llmMaxTokens :: "js_number option"
  arg_llmMaxSteps :: "js_number option"

definition setupCommands :: "analyze_args \<Rightarrow> cli_options" where
  "setupCommands args =
     \<lparr> directory = arg_directory args,
       output_path = arg_output args,
       llmBaseUrl = arg_llmBaseUrl args,
       llmApiKey = arg_llmApiKey args,
       llmModel = arg_llmModel args,
       format = (case arg_format args of None \<Rightarrow> ''markdown'' | Some f \<Rightarrow> f),
       verbose = arg_verbose args,
       llmMaxTokens = arg_llmMaxTokens args,
       llmMaxSteps = arg_llmMaxSteps args \<rparr>"

text \<open>\<^verbatim>\<open>validateOptions\<close>, lines 166-173.\<close>

definition validateOptions :: "collaborators \<Rightarrow> cli_options \<Rightarrow> cli_options io" where
  "validateOptions env rawOptions =
     (case CLIOptionsSchema_parse env rawOptions of
        Inr options \<Rightarrow> (Inr options, [CLIOptionsSchemaParse rawOptions])
      | Inl error \<Rightarrow>
          (Inl (Error (''Invalid options: '' @ message_or error ''Unknown error'')),
           [CLIOptionsSchemaParse rawOptions]))"

text \<open>
  \<^verbatim>\<open>handleError\<close>, lines 175-192: the category and the message go to the error stream,
  then the file or server name when the error has one (a non-empty string), and the
  process exits with status 1. Nothing in the file calls it: both \<^verbatim>\<open>catch\<close> blocks
  that did are commented out.
\<close>

fun detail_line :: "string \<Rightarrow> string option \<Rightarrow> event list" where
  "detail_line label None = []"
| "detail_line label (Some d) = (if d = [] then [] else [ConsoleError (label @ d)])"

fun handleError :: "js_error \<Rightarrow> event list" where
  "handleError (LLMAnalysisError m d) =
     ConsoleError (''LLM analysis error: '' @ m) # detail_line ''File: '' d @ [ProcessExit 1]"
| "handleError (MCPServerError m d) =
     ConsoleError (''MCP server error: '' @ m) # detail_line ''Server: '' d @ [ProcessExit 1]"
| "handleError error =
     [ConsoleError (''Unexpected error: '' @ message_or error ''Unknown error''), ProcessExit 1]"

text \<open>The configuration of lines 75-80 and the result of lines 123-131.\<close>

definition llmConfig_of :: "cli_options \<Rightarrow> llm_config" where
  "llmConfig_of options =
     \<lparr> baseUrl = llmBaseUrl options,
       apiKey = llmApiKey options,
       model = llmModel options,
       maxSteps = js_or (llmMaxSteps options) (Num 50) \<rparr>"

definition analysisResult_of :: "string \<Rightarrow> business_rule list \<Rightarrow> analysis_result" where
  "analysisResult_of date rules =
     \<lparr> analysisDate = date,
       businessRules = rules,
       summary =
         \<lparr> totalRules = length rules,
           highPriorityRules = length (filter (\<lambda>rule. priority rule = ''high'') rules),
           userFacingRules = length (filter (\<lambda>rule. userFacing rule) rules) \<rparr> \<rparr>"

text \<open>
  \<^verbatim>\<open>handleAnalyzeCommand\<close>, lines 70-164, statement by statement. The \<^verbatim>\<open>try\<close> of
  lines 98-163 is commented out in the source, so a thrown value leaves the method at
  once; only the \<^verbatim>\<open>try\<close> around the configuration check (lines 83-88) is live.
\<close>

definition handleAnalyzeCommand :: "collaborators \<Rightarrow> cli_options \<Rightarrow> unit io" where
  "handleAnalyzeCommand env rawOptions =
     bind_io (validateOptions env rawOptions) (\<lambda>options.
     let llmConfig = llmConfig_of options in
     bind_io
       (case LLMConfigSchema_parse env llmConfig of
          Inr ok \<Rightarrow> (Inr (), [LLMConfigSchemaParse llmConfig])
        | Inl error \<Rightarrow>
            (Inl (Error (''LLM Configuration Error: ''
                          @ message_or error ''Invalid LLM configuration'')),
             [LLMConfigSchemaParse llmConfig])) (\<lambda>u.
     bind_io
       (emit ([NewLLMProcessor llmConfig,
               NewProgressTracker (verbose options) True,
               ProgressStart ''Initializing analysis...'']
              @ (if verbose options
                 then [ConsoleLog LogStarting,
                       ConsoleLog (LogDirectory (directory options)),
                       ConsoleLog (LogOutput (output_path options)),
                       ConsoleLog (LogFormat (format options))]
                 else [])
              @ [ProgressUpdatePhase ''scanning'' ''Initializing MCP servers...''])) (\<lambda>u.
     bind_io (call InitializeServers (initializeServers env)) (\<lambda>u.
     bind_io
       (emit [ProgressUpdatePhase ''analyzing'' ''Analyzing codebase with LLM...'']) (\<lambda>u.
     bind_io (call GetTools (getTools env)) (\<lambda>tools.
     bind_io (call (Analyze llmConfig tools) (analyze env llmConfig tools)) (\<lambda>rules.
     bind_io
       (emit (if verbose options then [ConsoleLog (LogExtracted (length rules))] else []))
       (\<lambda>u.
     let analysisResult = analysisResult_of (isoDate env) rules in
     bind_io
       (emit [ProgressUpdatePhase ''formatting'' ''Formatting output...'',
              NewOutputFormatter True True True True]) (\<lambda>u.
     bind_io
       (call (FormatAndSave analysisResult (output_path options) (format options))
          (formatAndSave env analysisResult (output_path options) (format options))) (\<lambda>u.
     bind_io
       (emit [ProgressSucceed ''Analysis complete!'',
              ConsoleLog LogComplete,
              ConsoleLog (LogSavedTo (output_path options)),
              ConsoleLog LogSummaryHeader,
              ConsoleLog (LogTotalRules (totalRules (summary analysisResult))),
              ConsoleLog (LogHighPriorityRules (highPriorityRules (summary analysisResult))),
              ConsoleLog (LogUserFacingRules (userFacingRules (summary analysisResult)))])
       (\<lambda>u.
     bind_io (call Cleanup (cleanup env)) (\<lambda>u.
     call ShutdownServers (shutdownServers env)))))))))))))"

text \<open>
  \<^verbatim>\<open>run\<close>, lines 60-68, for an invocation of the analyze command: the option parser
  hands the options to the action, which awaits \<^verbatim>\<open>handleAnalyzeCommand\<close>. The
  \<^verbatim>\<open>try\<close> around it is commented out, so the outcome of the action is the outcome of
  \<^verbatim>\<open>run\<close>.
\<close>

definition run :: "collaborators \<Rightarrow> analyze_args \<Rightarrow> unit io" where
  "run env args = handleAnalyzeCommand env (setupCommands args)"

subsection \<open>Concrete collaborators\<close>

text \<open>
  Modelled from the spec: \<^verbatim>\<open>LLMConfigSchema\<close> is declared outside this file; the
  spec gives the validated range of \<open>maxSteps\<close> as 10 to 500. This check of that range
  stands for it in the concrete runs below; the theorems themselves hold for every schema.
\<close>

definition LLMConfigSchema_range :: "llm_config \<Rightarrow> js_error + unit" where
  "LLMConfigSchema_range cfg =
     (case maxSteps cfg of
        Num n \<Rightarrow> if 10 \<le> n \<and> n \<le> 500 then Inr ()
                 else Inl (Error ''maxSteps must be between 10 and 500'')
      | NaN \<Rightarrow> Inl (Error ''maxSteps must be a number''))"

definition sample_tools :: "tool list" where
  "sample_tools =
     [\<lparr> tool_name = ''read_file'', tool_description = ''Read a file'',
        tool_inputSchema = ''{}'', tool_server = ''filesystem'' \<rparr>]"

definition sample_rules :: "business_rule list" where
  "sample_rules =
     [\<lparr> rule_id = ''r1'', title = ''Refund window'', description = ''30 days'',
        category = ''billing'', priority = ''high'', userFacing = True,
        sources = [(''src/refund.ts'', Some (10, 42))] \<rparr>,
      \<lparr> rule_id = ''r2'', title = ''Retry count'', description = ''3 retries'',
        category = ''infra'', priority = ''low'', userFacing = False,
        sources = [] \<rparr>,
      \<lparr> rule_id = ''r3'', title = ''Rate limit'', description = ''100 per hour'',
        category = ''api'', priority = ''high'', userFacing = False,
        sources = [(''src/limit.ts'', None)] \<rparr>]"

text \<open>
  A run in which every collaborator succeeds; the options schema hands the options on
  unchanged.
\<close>

definition healthy :: collaborators where
  "healthy =
     \<lparr> CLIOptionsSchema_parse = Inr,
       LLMConfigSchema_parse = LLMConfigSchema_range,
       initializeServers = Inr (),
       getTools = Inr sample_tools,
       analyze = (\<lambda>cfg tools. Inr sample_rules),
       isoDate = ''2025-01-01T00:00:00.000Z'',
       formatAndSave = (\<lambda>res out fmt. Inr ()),
       cleanup = Inr (),
       shutdownServers = Inr () \<rparr>"

text \<open>The same run with a tool server that cannot be reached.\<close>

definition unreachable_server :: collaborators where
  "unreachable_server =
     healthy\<lparr>initializeServers :=
               Inl (MCPServerError ''connection refused'' (Some ''filesystem''))\<rparr>"

text \<open>The same run with a model endpoint that refuses the request.\<close>

definition failing_analysis :: collaborators where
  "failing_analysis =
     healthy\<lparr>analyze := (\<lambda>cfg tools. Inl (LLMAnalysisError ''401 Unauthorized'' None))\<rparr>"

definition sample_args :: analyze_args where
  "sample_args =
     \<lparr> arg_directory = ''./app'', arg_output = ''rules.md'',
       arg_llmBaseUrl = ''https://api.example.com/v1'', arg_llmApiKey = ''key'',
       arg_llmModel = ''gpt-4'', arg_format = None, arg_verbose = False,
       arg_llmMaxTokens = None, arg_llmMaxSteps = None \<rparr>"

definition sample_config :: llm_config where
  "sample_config =
     \<lparr> baseUrl = ''https://api.example.com/v1'', apiKey = ''key'', model = ''gpt-4'',
       maxSteps = Num 50 \<rparr>"

text \<open>The events of \<open>sample_args\<close> from the configuration check to the server start.\<close>

definition sample_startup :: "event list" where
  "sample_startup =
     [LLMConfigSchemaParse sample_config,
      NewLLMProcessor sample_config,
      NewProgressTracker False True,
      ProgressStart ''Initializing analysis...'',
      ProgressUpdatePhase ''scanning'' ''Initializing MCP servers...'',
      InitializeServers]"

definition sample_result :: analysis_result where
  "sample_result = analysisResult_of ''2025-01-01T00:00:00.000Z'' sample_rules"

section \<open>Properties\<close>

lemmas run_defs =
  handleAnalyzeCommand_def validateOptions_def bind_io_def call_def emit_def Let_def

lemmas sample_defs =
  run_def setupCommands_def llmConfig_of_def healthy_def unreachable_server_def
  failing_analysis_def sample_args_def sample_config_def sample_startup_def
  LLMConfigSchema_range_def sample_result_def

subsection \<open>The run in which everything succeeds\<close>

lemma healthy_run:
  "run healthy sample_args =
     (Inr (),
      CLIOptionsSchemaParse (setupCommands sample_args) # sample_startup @
      [ProgressUpdatePhase ''analyzing'' ''Analyzing codebase with LLM...'',
       GetTools,
       Analyze sample_config sample_tools,
       ProgressUpdatePhase ''formatting'' ''Formatting output...'',
       NewOutputFormatter True True True True,
       FormatAndSave sample_result ''rules.md'' ''markdown'',
       ProgressSucceed ''Analysis complete!'',
       ConsoleLog LogComplete,
       ConsoleLog (LogSavedTo ''rules.md''),
       ConsoleLog LogSummaryHeader,
       ConsoleLog (LogTotalRules 3),
       ConsoleLog (LogHighPriorityRules 2),
       ConsoleLog (LogUserFacingRules 1),
       Cleanup,
       ShutdownServers])"
  by (simp add: run_defs sample_defs analysisResult_of_def sample_rules_def)

subsection \<open>Error reporting and release of resources\<close>

text \<open>
  No statement of this file that a run executes writes to the error stream or ends the
  process: the only code that does either is \<open>handleError\<close>, and no live statement
  calls it. A run that fails is a rejected promise in the hands of whoever called
  \<^verbatim>\<open>run\<close>; what the process then prints and which status it ends with is decided
  there and by the runtime, outside this file.
\<close>

lemma run_writes_no_error_line:
  "ConsoleError s \<notin> set (snd (run env args))"
  by (auto simp add: run_def run_defs split: sum.splits if_splits prod.splits)

lemma run_never_exits:
  "ProcessExit n \<notin> set (snd (run env args))"
  by (auto simp add: run_def run_defs split: sum.splits if_splits prod.splits)

text \<open>
  The two release calls are the last statements of the success path: a run that succeeds
  has made each of them once, and a run in which \<open>Cleanup\<close> occurs has saved its output.
\<close>

lemma release_on_success:
  assumes "fst (run env args) = Inr ()"
  shows "count_list (snd (run env args)) Cleanup = 1
         \<and> count_list (snd (run env args)) ShutdownServers = 1"
  using assms
  by (auto simp add: run_def run_defs split: sum.splits if_splits prod.splits)

lemma release_only_after_saving:
  assumes "Cleanup \<in> set (snd (run env args))"
  shows "\<exists>res out fmt. FormatAndSave res out fmt \<in> set (snd (run env args))
           \<and> formatAndSave env res out fmt = Inr ()"
  using assms
  by (auto simp add: run_def run_defs split: sum.splits if_splits prod.splits)

text \<open>What \<open>handleError\<close> would write for a server error that names its server.\<close>

lemma handleError_server:
  "name \<noteq> [] \<Longrightarrow>
   handleError (MCPServerError m (Some name)) =
     [ConsoleError (''MCP server error: '' @ m), ConsoleError (''Server: '' @ name),
      ProcessExit 1]"
  by simp

text \<open>
  With a tool server that cannot be reached, \<^verbatim>\<open>run\<close> is rejected with the server
  error as it was thrown, and these are all the events of the run.
\<close>

lemma unreachable_server_run:
  "run unreachable_server sample_args =
     (Inl (MCPServerError ''connection refused'' (Some ''filesystem'')),
      CLIOptionsSchemaParse (setupCommands sample_args) # sample_startup)"
  by (simp add: run_defs sample_defs)

text \<open>
  Claim C2 (the resources are released on every exit path, also when the run fails) does
  not hold of the code. With a model endpoint that refuses the request, the run ends at
  the call of \<open>analyze\<close>: the servers were started, and neither \<open>Cleanup\<close> nor
  \<open>ShutdownServers\<close> follows.
\<close>

theorem failed_run_releases_nothing:
  "run failing_analysis sample_args =
     (Inl (LLMAnalysisError ''401 Unauthorized'' None),
      CLIOptionsSchemaParse (setupCommands sample_args) # sample_startup @
      [ProgressUpdatePhase ''analyzing'' ''Analyzing codebase with LLM...'',
       GetTools,
       Analyze sample_config sample_tools])"
  by (simp add: run_defs sample_defs)

subsection \<open>The summary of the result\<close>

text \<open>
  Claim C3: the result handed to the formatter holds the rules that \<open>analyze\<close>
  returned, and its summary is computed from that sequence and from nothing else:
  \<open>totalRules\<close> is its length, \<open>highPriorityRules\<close> the number of rules whose priority
  is \<^verbatim>\<open>'high'\<close>, \<open>userFacingRules\<close> the number of rules whose \<open>userFacing\<close> is true.
\<close>

theorem summary_recomputed_from_rules:
  assumes "FormatAndSave res out fmt \<in> set (snd (handleAnalyzeCommand env rawOptions))"
  shows "(\<exists>cfg tools. analyze env cfg tools = Inr (businessRules res))
         \<and> res = analysisResult_of (isoDate env) (businessRules res)
         \<and> totalRules (summary res) = length (businessRules res)
         \<and> highPriorityRules (summary res)
             = length (filter (\<lambda>rule. priority rule = ''high'') (businessRules res))
         \<and> userFacingRules (summary res)
             = length (filter (\<lambda>rule. userFacing rule = True) (businessRules res))"
  using assms
  by (auto simp add: run_defs analysisResult_of_def split: sum.splits if_splits prod.splits)

theorem summary_recomputed_from_rules_witness:
  "FormatAndSave sample_result ''rules.md'' ''markdown''
     \<in> set (snd (handleAnalyzeCommand healthy (setupCommands sample_args)))
   \<and> businessRules sample_result = sample_rules
   \<and> totalRules (summary sample_result) = 3
   \<and> highPriorityRules (summary sample_result) = 2
   \<and> userFacingRules (summary sample_result) = 1"
proof -
  have h: "FormatAndSave sample_result ''rules.md'' ''markdown''
             \<in> set (snd (handleAnalyzeCommand healthy (setupCommands sample_args)))"
    using healthy_run by (simp add: run_def)
  show ?thesis
    using h summary_recomputed_from_rules [OF h]
    by (simp add: sample_result_def analysisResult_of_def sample_rules_def)
qed

subsection \<open>Failures before the analysis\<close>

text \<open>
  When the options schema throws, the command throws an error whose message starts with
  \<^verbatim>\<open>Invalid options:\<close>, and nothing else has happened.
\<close>

lemma invalid_options_rejected_first:
  assumes "CLIOptionsSchema_parse env rawOptions = Inl error"
  shows "handleAnalyzeCommand env rawOptions =
           (Inl (Error (''Invalid options: '' @ message_or error ''Unknown error'')),
            [CLIOptionsSchemaParse rawOptions])"
  using assms by (simp add: run_defs)

text \<open>
  When the options and the configuration are valid and the start of the tool servers
  throws, the command ends at that call and throws what was thrown; the tools are not
  listed and \<open>analyze\<close> is not called.
\<close>

lemma server_start_failure_ends_command:
  assumes "CLIOptionsSchema_parse env rawOptions = Inr options"
    and "LLMConfigSchema_parse env (llmConfig_of options) = Inr ok"
    and "initializeServers env = Inl error"
  shows "fst (handleAnalyzeCommand env rawOptions) = Inl error
         \<and> (\<forall>cfg tools. Analyze cfg tools \<notin> set (snd (handleAnalyzeCommand env rawOptions)))
         \<and> GetTools \<notin> set (snd (handleAnalyzeCommand env rawOptions))
         \<and> last (snd (handleAnalyzeCommand env rawOptions)) = InitializeServers"
  using assms by (simp add: run_defs)

text \<open>
  Claim C6: when the configuration built from the validated options fails its schema,
  the command throws an error whose message starts with \<^verbatim>\<open>LLM Configuration Error:\<close>,
  and the two schema checks are all that has happened: no server was started and no
  analysis was made.
\<close>

theorem invalid_config_rejected_first:
  assumes "CLIOptionsSchema_parse env rawOptions = Inr options"
    and "LLMConfigSchema_parse env (llmConfig_of options) = Inl error"
  shows "handleAnalyzeCommand env rawOptions =
           (Inl (Error (''LLM Configuration Error: ''
                         @ message_or error ''Invalid LLM configuration'')),
            [CLIOptionsSchemaParse rawOptions, LLMConfigSchemaParse (llmConfig_of options)])
         \<and> InitializeServers \<notin> set (snd (handleAnalyzeCommand env rawOptions))
         \<and> (\<forall>cfg tools. Analyze cfg tools \<notin> set (snd (handleAnalyzeCommand env rawOptions)))"
  using assms by (simp add: run_defs)

theorem invalid_config_rejected_first_witness:
  "CLIOptionsSchema_parse healthy (setupCommands (sample_args\<lparr>arg_llmMaxSteps := Some (Num 5)\<rparr>))
     = Inr (setupCommands (sample_args\<lparr>arg_llmMaxSteps := Some (Num 5)\<rparr>))
   \<and> LLMConfigSchema_parse healthy
        (llmConfig_of (setupCommands (sample_args\<lparr>arg_llmMaxSteps := Some (Num 5)\<rparr>)))
       = Inl (Error ''maxSteps must be between 10 and 500'')
   \<and> handleAnalyzeCommand healthy (setupCommands (sample_args\<lparr>arg_llmMaxSteps := Some (Num 5)\<rparr>))
       = (Inl (Error ''LLM Configuration Error: maxSteps must be between 10 and 500''),
          [CLIOptionsSchemaParse (setupCommands (sample_args\<lparr>arg_llmMaxSteps := Some (Num 5)\<rparr>)),
           LLMConfigSchemaParse (sample_config\<lparr>maxSteps := Num 5\<rparr>)])"
proof -
  let ?raw = "setupCommands (sample_args\<lparr>arg_llmMaxSteps := Some (Num 5)\<rparr>)"
  have h1: "CLIOptionsSchema_parse healthy ?raw = Inr ?raw"
    by (simp add: sample_defs)
  have h2: "LLMConfigSchema_parse healthy (llmConfig_of ?raw)
              = Inl (Error ''maxSteps must be between 10 and 500'')"
    by (simp add: sample_defs)
  have cfg: "llmConfig_of ?raw = sample_config\<lparr>maxSteps := Num 5\<rparr>"
    by (simp add: sample_defs)
  show ?thesis
    using h1 h2 cfg invalid_config_rejected_first [OF h1 h2]
    by simp
qed

subsection \<open>The tool catalog\<close>

text \<open>
  Claim C7: in a run that gets as far as the analysis (valid options, valid
  configuration, servers started) the tools are listed exactly once; the one call comes
  before any call of \<open>analyze\<close>, and when it returns, its result is what \<open>analyze\<close> is
  called with, at once and only once. The command never lists the tools again.
\<close>

theorem tools_listed_once_before_analysis:
  assumes "CLIOptionsSchema_parse env rawOptions = Inr options"
    and "LLMConfigSchema_parse env (llmConfig_of options) = Inr ok"
    and "initializeServers env = Inr started"
  shows "count_list (snd (handleAnalyzeCommand env rawOptions)) GetTools = 1
         \<and> (\<exists>pre post.
               snd (handleAnalyzeCommand env rawOptions) = pre @ GetTools # post
               \<and> GetTools \<notin> set pre \<and> (\<forall>cfg ts. Analyze cfg ts \<notin> set pre)
               \<and> GetTools \<notin> set post
               \<and> (case getTools env of
                     Inl error \<Rightarrow> post = []
                   | Inr tools \<Rightarrow>
                       (\<exists>rest. post = Analyze (llmConfig_of options) tools # rest
                          \<and> (\<forall>cfg ts. Analyze cfg ts \<notin> set rest))))"
proof -
  let ?cfg = "llmConfig_of options"
  let ?pre = "[CLIOptionsSchemaParse rawOptions, LLMConfigSchemaParse ?cfg,
               NewLLMProcessor ?cfg, NewProgressTracker (verbose options) True,
               ProgressStart ''Initializing analysis...'']
              @ (if verbose options
                 then [ConsoleLog LogStarting,
                       ConsoleLog (LogDirectory (directory options)),
                       ConsoleLog (LogOutput (output_path options)),
                       ConsoleLog (LogFormat (format options))]
                 else [])
              @ [ProgressUpdatePhase ''scanning'' ''Initializing MCP servers...'',
                 InitializeServers,
                 ProgressUpdatePhase ''analyzing'' ''Analyzing codebase with LLM...'']"
  have once: "count_list (snd (handleAnalyzeCommand env rawOptions)) GetTools = 1"
    using assms
    by (auto simp add: run_defs split: sum.splits if_splits prod.splits)
  have pre: "GetTools \<notin> set ?pre \<and> (\<forall>cfg ts. Analyze cfg ts \<notin> set ?pre)"
    by simp
  have "\<exists>post. snd (handleAnalyzeCommand env rawOptions) = ?pre @ GetTools # post
          \<and> GetTools \<notin> set post
          \<and> (case getTools env of
                Inl error \<Rightarrow> post = []
              | Inr tools \<Rightarrow>
                  (\<exists>rest. post = Analyze ?cfg tools # rest
                     \<and> (\<forall>cfg ts. Analyze cfg ts \<notin> set rest)))"
    using assms
    by (auto simp add: run_defs split: sum.splits if_splits prod.splits)
  with once pre show ?thesis
    by blast
qed

theorem tools_listed_once_before_analysis_witness:
  "CLIOptionsSchema_parse healthy (setupCommands sample_args) = Inr (setupCommands sample_args)
   \<and> LLMConfigSchema_parse healthy (llmConfig_of (setupCommands sample_args)) = Inr ()
   \<and> initializeServers healthy = Inr ()
   \<and> getTools healthy = Inr sample_tools
   \<and> Analyze sample_config sample_tools
       \<in> set (snd (handleAnalyzeCommand healthy (setupCommands sample_args)))
   \<and> count_list (snd (handleAnalyzeCommand healthy (setupCommands sample_args))) GetTools = 1"
proof -
  have h1: "CLIOptionsSchema_parse healthy (setupCommands sample_args)
              = Inr (setupCommands sample_args)"
    by (simp add: sample_defs)
  have h2: "LLMConfigSchema_parse healthy (llmConfig_of (setupCommands sample_args)) = Inr ()"
    by (simp add: sample_defs)
  have h3: "initializeServers healthy = Inr ()"
    by (simp add: sample_defs)
  have h4: "getTools healthy = Inr sample_tools"
    by (simp add: sample_defs)
  have h5: "Analyze sample_config sample_tools
              \<in> set (snd (handleAnalyzeCommand healthy (setupCommands sample_args)))"
    using healthy_run by (simp add: run_def)
  show ?thesis
    using h1 h2 h3 h4 h5 tools_listed_once_before_analysis [OF h1 h2 h3]
    by blast
qed

subsection \<open>From the options to the configuration\<close>

text \<open>
  What the command passes on comes from the validated options: the configuration that
  is checked and given to the processor, and the path and format given to the formatter.
\<close>

lemma processor_config:
  assumes "CLIOptionsSchema_parse env rawOptions = Inr options"
    and "NewLLMProcessor cfg \<in> set (snd (handleAnalyzeCommand env rawOptions))"
  shows "cfg = llmConfig_of options"
  using assms
  by (auto simp add: run_defs split: sum.splits if_splits prod.splits)

lemma checked_config:
  assumes "CLIOptionsSchema_parse env rawOptions = Inr options"
    and "LLMConfigSchemaParse cfg \<in> set (snd (handleAnalyzeCommand env rawOptions))"
  shows "cfg = llmConfig_of options"
  using assms
  by (auto simp add: run_defs split: sum.splits if_splits prod.splits)

lemma formatter_arguments:
  assumes "CLIOptionsSchema_parse env rawOptions = Inr options"
    and "FormatAndSave res out fmt \<in> set (snd (handleAnalyzeCommand env rawOptions))"
  shows "out = output_path options \<and> fmt = format options"
  using assms
  by (auto simp add: run_defs split: sum.splits if_splits prod.splits)

text \<open>
  Claim C5: when \<^verbatim>\<open>--llm-max-steps\<close> is not given (and validation hands the absent
  option on as it is), the configuration has \<open>maxSteps\<close> 50, and that is the
  configuration the processor is built with.
\<close>

theorem default_maxSteps:
  assumes "arg_llmMaxSteps args = None"
    and "CLIOptionsSchema_parse env (setupCommands args) = Inr options"
    and "llmMaxSteps options = llmMaxSteps (setupCommands args)"
  shows "maxSteps (llmConfig_of options) = Num 50
         \<and> (\<forall>cfg. NewLLMProcessor cfg \<in> set (snd (run env args)) \<longrightarrow> maxSteps cfg = Num 50)"
proof -
  have none: "llmMaxSteps options = None"
    using assms(1,3) by (simp add: setupCommands_def)
  then have fifty: "maxSteps (llmConfig_of options) = Num 50"
    by (simp add: llmConfig_of_def)
  moreover have "maxSteps cfg = Num 50"
    if "NewLLMProcessor cfg \<in> set (snd (run env args))" for cfg
    using processor_config [OF assms(2)] that fifty by (simp add: run_def)
  ultimately show ?thesis by blast
qed

theorem default_maxSteps_witness:
  "arg_llmMaxSteps sample_args = None
   \<and> CLIOptionsSchema_parse healthy (setupCommands sample_args) = Inr (setupCommands sample_args)
   \<and> NewLLMProcessor sample_config \<in> set (snd (run healthy sample_args))
   \<and> maxSteps (llmConfig_of (setupCommands sample_args)) = Num 50
   \<and> maxSteps sample_config = Num 50"
proof -
  have h1: "arg_llmMaxSteps sample_args = None"
    by (simp add: sample_defs)
  have h2: "CLIOptionsSchema_parse healthy (setupCommands sample_args)
              = Inr (setupCommands sample_args)"
    by (simp add: sample_defs)
  have h3: "NewLLMProcessor sample_config \<in> set (snd (run healthy sample_args))"
    by (simp add: healthy_run sample_startup_def)
  show ?thesis
    using h1 h2 h3 default_maxSteps [OF h1 h2 refl]
    by blast
qed

text \<open>
  Line 79 on validated options: a \<open>llmMaxSteps\<close> of 0 or \<^verbatim>\<open>NaN\<close> that the options
  schema has returned is replaced by 50, so the configuration is that of options without
  the field, and the configuration schema and the processor get 50. Whether the options
  schema returns such a value or throws is the schema's matter
  (\<open>invalid_options_rejected_first\<close> is the other case).
\<close>

lemma falsy_maxSteps_in_validated_options:
  assumes "CLIOptionsSchema_parse env rawOptions = Inr options"
    and "llmMaxSteps options = Some v"
    and "\<not> truthy v"
  shows "maxSteps (llmConfig_of options) = Num 50
         \<and> llmConfig_of options = llmConfig_of (options\<lparr>llmMaxSteps := None\<rparr>)
         \<and> (\<forall>cfg. LLMConfigSchemaParse cfg \<in> set (snd (handleAnalyzeCommand env rawOptions))
               \<longrightarrow> maxSteps cfg = Num 50)
         \<and> (\<forall>cfg. NewLLMProcessor cfg \<in> set (snd (handleAnalyzeCommand env rawOptions))
               \<longrightarrow> maxSteps cfg = Num 50)"
proof -
  have fifty: "maxSteps (llmConfig_of options) = Num 50"
    and same: "llmConfig_of options = llmConfig_of (options\<lparr>llmMaxSteps := None\<rparr>)"
    using assms(2,3) by (simp_all add: llmConfig_of_def)
  have "maxSteps cfg = Num 50"
    if "LLMConfigSchemaParse cfg \<in> set (snd (handleAnalyzeCommand env rawOptions))" for cfg
    using checked_config [OF assms(1)] that fifty by simp
  moreover have "maxSteps cfg = Num 50"
    if "NewLLMProcessor cfg \<in> set (snd (handleAnalyzeCommand env rawOptions))" for cfg
    using processor_config [OF assms(1)] that fifty by simp
  ultimately show ?thesis
    using fifty same by blast
qed

text \<open>
  Claim C8: two validated option sets that differ in \<open>llmMaxTokens\<close> only give the same
  configuration, and the same run: the same outcome and, after the first event (the
  validation of the raw options themselves), the same events with the same arguments.
  The value of \<^verbatim>\<open>--llm-max-tokens\<close> reaches neither the configuration nor any
  collaborator.
\<close>

theorem maxTokens_does_not_reach_config:
  assumes "CLIOptionsSchema_parse env raw1 = Inr options1"
    and "CLIOptionsSchema_parse env raw2 = Inr options2"
    and "options2 = options1\<lparr>llmMaxTokens := llmMaxTokens options2\<rparr>"
  shows "llmConfig_of options1 = llmConfig_of options2
         \<and> fst (handleAnalyzeCommand env raw1) = fst (handleAnalyzeCommand env raw2)
         \<and> tl (snd (handleAnalyzeCommand env raw1)) = tl (snd (handleAnalyzeCommand env raw2))"
proof -
  have fields: "llmBaseUrl options2 = llmBaseUrl options1" "llmApiKey options2 = llmApiKey options1"
    "llmModel options2 = llmModel options1" "llmMaxSteps options2 = llmMaxSteps options1"
    "verbose options2 = verbose options1" "directory options2 = directory options1"
    "output_path options2 = output_path options1" "format options2 = format options1"
    by (subst assms(3), simp)+
  then have cfg: "llmConfig_of options1 = llmConfig_of options2"
    by (simp add: llmConfig_of_def)
  show ?thesis
    using assms(1,2) fields cfg
    by (simp add: run_defs split: sum.splits if_splits prod.splits)
qed

theorem maxTokens_does_not_reach_config_witness:
  "CLIOptionsSchema_parse healthy (setupCommands sample_args) = Inr (setupCommands sample_args)
   \<and> CLIOptionsSchema_parse healthy
        (setupCommands (sample_args\<lparr>arg_llmMaxTokens := Some (Num 2000)\<rparr>))
       = Inr (setupCommands (sample_args\<lparr>arg_llmMaxTokens := Some (Num 2000)\<rparr>))
   \<and> llmMaxTokens (setupCommands sample_args) = None
   \<and> llmMaxTokens (setupCommands (sample_args\<lparr>arg_llmMaxTokens := Some (Num 2000)\<rparr>))
       = Some (Num 2000)
   \<and> llmConfig_of (setupCommands sample_args)
       = llmConfig_of (setupCommands (sample_args\<lparr>arg_llmMaxTokens := Some (Num 2000)\<rparr>))
   \<and> fst (handleAnalyzeCommand healthy
             (setupCommands (sample_args\<lparr>arg_llmMaxTokens := Some (Num 2000)\<rparr>)))
       = Inr ()"
proof -
  let ?raw2 = "setupCommands (sample_args\<lparr>arg_llmMaxTokens := Some (Num 2000)\<rparr>)"
  have h1: "CLIOptionsSchema_parse healthy (setupCommands sample_args)
              = Inr (setupCommands sample_args)"
    by (simp add: sample_defs)
  have h2: "CLIOptionsSchema_parse healthy ?raw2 = Inr ?raw2"
    by (simp add: sample_defs)
  have h3: "?raw2 = (setupCommands sample_args)\<lparr>llmMaxTokens := llmMaxTokens ?raw2\<rparr>"
    by (simp add: sample_defs)
  have t: "llmMaxTokens (setupCommands sample_args) = None
           \<and> llmMaxTokens ?raw2 = Some (Num 2000)"
    by (simp add: sample_defs)
  have ok: "fst (handleAnalyzeCommand healthy (setupCommands sample_args)) = Inr ()"
    using healthy_run by (simp add: run_def)
  show ?thesis
    using h1 h2 t ok maxTokens_does_not_reach_config [OF h1 h2 h3]
    by simp
qed

text \<open>
  Claim C10: when \<^verbatim>\<open>--format\<close> is not given, the options of the command hold the
  format \<^verbatim>\<open>'markdown'\<close>, and (validation handing it on as it is) that is the format
  the formatter is called with.
\<close>

theorem format_defaults_to_markdown:
  assumes "arg_format args = None"
    and "CLIOptionsSchema_parse env (setupCommands args) = Inr options"
    and "format options = format (setupCommands args)"
  shows "format (setupCommands args) = ''markdown''
         \<and> (\<forall>res out fmt. FormatAndSave res out fmt \<in> set (snd (run env args))
               \<longrightarrow> fmt = ''markdown'')"
proof -
  have md: "format (setupCommands args) = ''markdown''"
    using assms(1) by (simp add: setupCommands_def)
  moreover have "fmt = ''markdown''"
    if "FormatAndSave res out fmt \<in> set (snd (run env args))" for res out fmt
    using formatter_arguments [OF assms(2)] that md assms(3) by (simp add: run_def)
  ultimately show ?thesis by blast
qed

theorem format_defaults_to_markdown_witness:
  "arg_format sample_args = None
   \<and> CLIOptionsSchema_parse healthy (setupCommands sample_args) = Inr (setupCommands sample_args)
   \<and> FormatAndSave sample_result ''rules.md'' ''markdown'' \<in> set (snd (run healthy sample_args))
   \<and> format (setupCommands sample_args) = ''markdown''"
proof -
  have h1: "arg_format sample_args = None"
    by (simp add: sample_defs)
  have h2: "CLIOptionsSchema_parse healthy (setupCommands sample_args)
              = Inr (setupCommands sample_args)"
    by (simp add: sample_defs)
  have h3: "FormatAndSave sample_result ''rules.md'' ''markdown''
              \<in> set (snd (run healthy sample_args))"
    by (simp add: healthy_run)
  show ?thesis
    using h1 h2 h3 format_defaults_to_markdown [OF h1 h2 refl]
    by blast
qed

end
